theory Spec2Isabelle
  imports
    Complex_Main
    "HOL-Library.Monad_Syntax"
    "HOL-Library.Char_ord"
    "HOL-Library.List_Lexorder"
    "HOL-Library.Product_Lexorder"
begin

section \<open>Data model\<close>

text \<open>
  A Ledger row carries the columns of the CSV schema that the loader and the aggregator
  read, under the names of the specification (the source's column names are Japanese):
  the department code and name, the report type (0 = main income statement, 1 =
  manufacturing-cost supplement), the account code and name, the four monetary columns,
  the in-file start period, and the two columns the loader adds (\<open>source_file\<close>,
  \<open>year_month\<close>). A data frame is the list of its rows, in order.

  Monetary values are Python floats in the source; they are idealised as reals here, so
  rounding and NaN are outside the model. Integer columns are Python integers. A string
  is a list of characters ordered by code point, lexicographically, as Python orders
  \<open>str\<close>. \<open>None\<close> in an optional column stands for a null (NaN/None) cell.
\<close>

record row =
  office_code :: int
  office_name :: string
  dept_code :: int
  dept_name :: string
  report_type :: int
  account_code :: int
  account_name :: string
  prior_balance :: real
  debit :: real
  credit :: real
  balance :: real
  start_period :: "string option"
  source_file :: string
  year_month :: "string option"

text \<open>
  A function of the source that can raise returns an option: \<open>None\<close> means that an
  exception propagates to the caller. The two operations of the aggregator that can
  raise are positional access to the first element (\<open>.iloc[0]\<close>, IndexError on an
  empty selection) and float division (ZeroDivisionError on a zero divisor).
\<close>

definition iloc0 :: "'a list \<Rightarrow> 'a option" where
  "iloc0 xs = (case xs of [] \<Rightarrow> None | x # _ \<Rightarrow> Some x)"

definition py_div :: "real \<Rightarrow> real \<Rightarrow> real option" where
  "py_div a b = (if b = 0 then None else Some (a / b))"

text \<open>\<open>Series.unique()\<close>: the distinct values in order of first appearance.\<close>

fun unique_from :: "'a list \<Rightarrow> 'a list \<Rightarrow> 'a list" where
  "unique_from seen [] = []"
| "unique_from seen (x # xs) =
     (if x \<in> set seen then unique_from seen xs else x # unique_from (x # seen) xs)"

definition unique :: "'a list \<Rightarrow> 'a list" where
  "unique xs = unique_from [] xs"

section \<open>The aggregator (DataProcessor)\<close>

text \<open>The fixed account-code table \<open>ACCOUNT_CODES\<close>, a dictionary with literal keys.\<close>

datatype account_key =
  Revenue | Cost_of_sales | Gross_profit | Sga | Operating_income | Non_op_revenue
  | Non_op_expense | Ordinary_income | Extra_income | Extra_loss | Pretax_income
  | Net_income | Material_cost | Labor_cost | Expense_cost | Mfg_cost

fun ACCOUNT_CODES :: "account_key \<Rightarrow> int" where
  "ACCOUNT_CODES Revenue = 4199"
| "ACCOUNT_CODES Cost_of_sales = 5399"
| "ACCOUNT_CODES Gross_profit = 5400"
| "ACCOUNT_CODES Sga = 6299"
| "ACCOUNT_CODES Operating_income = 7000"
| "ACCOUNT_CODES Non_op_revenue = 7199"
| "ACCOUNT_CODES Non_op_expense = 7599"
| "ACCOUNT_CODES Ordinary_income = 8000"
| "ACCOUNT_CODES Extra_income = 8199"
| "ACCOUNT_CODES Extra_loss = 8299"
| "ACCOUNT_CODES Pretax_income = 8300"
| "ACCOUNT_CODES Net_income = 9000"
| "ACCOUNT_CODES Material_cost = 5419"
| "ACCOUNT_CODES Labor_cost = 5439"
| "ACCOUNT_CODES Expense_cost = 5469"
| "ACCOUNT_CODES Mfg_cost = 5299"

text \<open>The aggregator object: its only attribute is the Ledger given at construction.\<close>

record processor =
  df :: "row list"



definition get_main_accounts :: "processor \<Rightarrow> row list option \<Rightarrow> row list" where
  "get_main_accounts self d =
     (let target = (case d of Some t \<Rightarrow> t | None \<Rightarrow> df self)
      in filter (\<lambda>r. report_type r = 0) target)"

definition get_cost_breakdown :: "processor \<Rightarrow> row list option \<Rightarrow> row list" where
  "get_cost_breakdown self d =
     (let target = (case d of Some t \<Rightarrow> t | None \<Rightarrow> df self)
      in filter (\<lambda>r. report_type r = 1) target)"

text \<open>
  The \<open>value_column\<close> argument of \<open>get_account_value\<close> names one of the four
  monetary columns (the docstring lists them); the default is the balance.
\<close>

datatype value_column = PriorBalance | Debit | Credit | Balance

fun column_value :: "value_column \<Rightarrow> row \<Rightarrow> real" where
  "column_value PriorBalance r = prior_balance r"
| "column_value Debit r = debit r"
| "column_value Credit r = credit r"
| "column_value Balance r = balance r"

definition get_account_value :: "row list \<Rightarrow> int \<Rightarrow> value_column \<Rightarrow> real option" where
  "get_account_value d code vc =
     (let rw = filter (\<lambda>r. account_code r = code) d
      in if rw = [] then Some 0
         else do { v \<leftarrow> iloc0 (map (column_value vc) rw); Some v })"

text \<open>
  A margin of \<open>calculate_kpi\<close> and \<open>get_department_breakdown\<close>: the source
  writes \<open>(x / revenue * 100) if revenue != 0 else 0\<close> at each place.
\<close>

definition margin :: "real \<Rightarrow> real \<Rightarrow> real option" where
  "margin income rv =
     (if rv \<noteq> 0 then do { q \<leftarrow> py_div income rv; Some (q * 100) } else Some 0)"

record kpi =
  revenue :: real
  cost_of_sales :: real
  gross_profit :: real
  sga :: real
  operating_income :: real
  ordinary_income :: real
  net_income :: real
  gross_margin :: real
  op_margin :: real
  ord_margin :: real
  net_margin :: real

text \<open>
  The company-wide loop of \<open>calculate_kpi\<close>: for each department code, the seven
  lookups within that department's rows are added to the seven running totals.
\<close>

fun kpi_loop ::
  "row list \<Rightarrow> int list \<Rightarrow> real \<times> real \<times> real \<times> real \<times> real \<times> real \<times> real
     \<Rightarrow> (real \<times> real \<times> real \<times> real \<times> real \<times> real \<times> real) option" where
  "kpi_loop main_df [] acc = Some acc"
| "kpi_loop main_df (code # codes) (rv, cs, gp, sg, oi, od, ni) = do {
     let dept_df = filter (\<lambda>r. dept_code r = code) main_df;
     v1 \<leftarrow> get_account_value dept_df (ACCOUNT_CODES Revenue) Balance;
     v2 \<leftarrow> get_account_value dept_df (ACCOUNT_CODES Cost_of_sales) Balance;
     v3 \<leftarrow> get_account_value dept_df (ACCOUNT_CODES Gross_profit) Balance;
     v4 \<leftarrow> get_account_value dept_df (ACCOUNT_CODES Sga) Balance;
     v5 \<leftarrow> get_account_value dept_df (ACCOUNT_CODES Operating_income) Balance;
     v6 \<leftarrow> get_account_value dept_df (ACCOUNT_CODES Ordinary_income) Balance;
     v7 \<leftarrow> get_account_value dept_df (ACCOUNT_CODES Net_income) Balance;
     kpi_loop main_df codes (rv + v1, cs + v2, gp + v3, sg + v4, oi + v5, od + v6, ni + v7)
   }"

text \<open>The department and period filters that every query applies to a copy of the Ledger.\<close>

definition apply_filters :: "row list \<Rightarrow> int option \<Rightarrow> string option \<Rightarrow> row list" where
  "apply_filters d dc ym =
     (let filtered = d;
          filtered = (case dc of None \<Rightarrow> filtered
                      | Some c \<Rightarrow> filter (\<lambda>r. dept_code r = c) filtered);
          filtered = (case ym of None \<Rightarrow> filtered
                      | Some p \<Rightarrow> filter (\<lambda>r. year_month r = Some p) filtered)
      in filtered)"

definition calculate_kpi :: "processor \<Rightarrow> int option \<Rightarrow> string option \<Rightarrow> kpi option" where
  "calculate_kpi self dc ym = do {
     let filtered = apply_filters (df self) dc ym;
     let main_df = get_main_accounts self (Some filtered);
     (rv, cs, gp, sg, oi, od, ni) \<leftarrow>
       (if dc = None then
          kpi_loop main_df (unique (map dept_code main_df)) (0, 0, 0, 0, 0, 0, 0)
        else do {
          v1 \<leftarrow> get_account_value main_df (ACCOUNT_CODES Revenue) Balance;
          v2 \<leftarrow> get_account_value main_df (ACCOUNT_CODES Cost_of_sales) Balance;
          v3 \<leftarrow> get_account_value main_df (ACCOUNT_CODES Gross_profit) Balance;
          v4 \<leftarrow> get_account_value main_df (ACCOUNT_CODES Sga) Balance;
          v5 \<leftarrow> get_account_value main_df (ACCOUNT_CODES Operating_income) Balance;
          v6 \<leftarrow> get_account_value main_df (ACCOUNT_CODES Ordinary_income) Balance;
          v7 \<leftarrow> get_account_value main_df (ACCOUNT_CODES Net_income) Balance;
          Some (v1, v2, v3, v4, v5, v6, v7)
        });
     gm \<leftarrow> margin gp rv;
     om \<leftarrow> margin oi rv;
     dm \<leftarrow> margin od rv;
     nm \<leftarrow> margin ni rv;
     Some \<lparr>revenue = rv, cost_of_sales = cs, gross_profit = gp, sga = sg,
           operating_income = oi, ordinary_income = od, net_income = ni,
           gross_margin = gm, op_margin = om, ord_margin = dm, net_margin = nm\<rparr>
   }"

text \<open>
  Tabular results. A data frame has its column labels and its records. The breakdown
  queries build theirs with \<open>pd.DataFrame(results)\<close> from a list of dictionaries:
  the columns are the dictionaries' keys, so an empty list gives a frame with no columns.
\<close>

record 'a frame =
  columns :: "string list"
  records :: "'a list"

definition DataFrame :: "string list \<Rightarrow> 'a list \<Rightarrow> 'a frame" where
  "DataFrame keys results =
     \<lparr>columns = (if results = [] then [] else keys), records = results\<rparr>"













record sga_record =
  s_account_code :: int
  s_account_name :: string
  s_amount :: real

definition sga_keys :: "string list" where
  "sga_keys = [''account_code'', ''account_name'', ''amount'']"

fun sga_loop :: "row list \<Rightarrow> int list \<Rightarrow> sga_record list option" where
  "sga_loop sga_df [] = Some []"
| "sga_loop sga_df (code # codes) = do {
     let item_df = filter (\<lambda>r. account_code r = code) sga_df;
     nm \<leftarrow> (if item_df \<noteq> [] then iloc0 (map account_name item_df) else Some []);
     let total = sum_list (map balance item_df);
     rest \<leftarrow> sga_loop sga_df codes;
     Some (if total \<noteq> 0
           then \<lparr>s_account_code = code, s_account_name = nm, s_amount = total\<rparr> # rest
           else rest)
   }"

text \<open>
  \<open>sort_values(amount, ascending=False)\<close> is modelled as a stable sort on the negated
  amount. Pandas does not promise an order among equal amounts; no property below
  depends on it.
\<close>

definition get_sga_breakdown ::
  "processor \<Rightarrow> int option \<Rightarrow> string option \<Rightarrow> sga_record frame option" where
  "get_sga_breakdown self dc ym = do {
     let filtered = apply_filters (df self) dc ym;
     let main_df = get_main_accounts self (Some filtered);
     let sga_df = filter (\<lambda>r. account_code r \<ge> 6000 \<and> account_code r < 6299) main_df;
     results \<leftarrow> sga_loop sga_df (unique (map account_code sga_df));
     let result_df = DataFrame sga_keys results;
     Some (if records result_df \<noteq> []
           then result_df\<lparr>records := sort_key (\<lambda>i. - s_amount i) (records result_df)\<rparr>
           else result_df)
   }"

record cost_record =
  c_dept_code :: int
  c_dept_name :: string
  c_material :: real
  c_labor :: real
  c_expense :: real
  c_mfg :: real

definition cost_keys :: "string list" where
  "cost_keys = [''dept_code'', ''dept_name'', ''material'', ''labor'', ''expense'', ''mfg'']"

fun cost_dept_loop :: "row list \<Rightarrow> row list \<Rightarrow> int list \<Rightarrow> cost_record list option" where
  "cost_dept_loop cost_df main_df [] = Some []"
| "cost_dept_loop cost_df main_df (code # codes) = do {
     let dept_cost = filter (\<lambda>r. dept_code r = code) cost_df;
     let dept_main = filter (\<lambda>r. dept_code r = code) main_df;
     nm \<leftarrow> (if dept_cost \<noteq> [] then iloc0 (map dept_name dept_cost) else Some []);
     mt \<leftarrow> get_account_value dept_cost (ACCOUNT_CODES Material_cost) Balance;
     lb \<leftarrow> get_account_value dept_cost (ACCOUNT_CODES Labor_cost) Balance;
     ex \<leftarrow> get_account_value dept_cost (ACCOUNT_CODES Expense_cost) Balance;
     mf \<leftarrow> get_account_value dept_main (ACCOUNT_CODES Mfg_cost) Balance;
     rest \<leftarrow> cost_dept_loop cost_df main_df codes;
     Some (\<lparr>c_dept_code = code, c_dept_name = nm, c_material = mt, c_labor = lb,
            c_expense = ex, c_mfg = mf\<rparr> # rest)
   }"

definition get_cost_breakdown_by_dept ::
  "processor \<Rightarrow> string option \<Rightarrow> cost_record frame option" where
  "get_cost_breakdown_by_dept self ym = do {
     let filtered = apply_filters (df self) None ym;
     let cost_df = get_cost_breakdown self (Some filtered);
     let main_df = get_main_accounts self (Some filtered);
     results \<leftarrow> cost_dept_loop cost_df main_df (sort (unique (map dept_code cost_df)));
     Some (DataFrame cost_keys results)
   }"

section \<open>The loader (DataLoader)\<close>

text \<open>
  The period of a file name: \<open>re.search\<close> with the pattern of four digits, an
  underscore, two digits, an underscore. \<open>match_here\<close> tries the pattern at the
  start of the text, \<open>re_search\<close> tries every start position from the left and
  keeps the first that succeeds. Characters are code points below 256, among which the
  decimal digits of \<open>\d\<close> are \<open>0\<close> to \<open>9\<close>.
\<close>

definition is_digit :: "char \<Rightarrow> bool" where
  "is_digit c = (c \<in> set ''0123456789'')"

fun match_here :: "string \<Rightarrow> (string \<times> string) option" where
  "match_here (y1 # y2 # y3 # y4 # u1 # m1 # m2 # u2 # rest) =
     (if is_digit y1 \<and> is_digit y2 \<and> is_digit y3 \<and> is_digit y4 \<and> u1 = CHR ''_''
         \<and> is_digit m1 \<and> is_digit m2 \<and> u2 = CHR ''_''
      then Some ([y1, y2, y3, y4], [m1, m2]) else None)"
| "match_here _ = None"

fun re_search :: "string \<Rightarrow> (string \<times> string) option" where
  "re_search [] = None"
| "re_search (c # cs) =
     (case match_here (c # cs) of Some g \<Rightarrow> Some g | None \<Rightarrow> re_search cs)"

definition extract_year_month_from_filename :: "string \<Rightarrow> string option" where
  "extract_year_month_from_filename filename =
     (case re_search filename of
        Some (year, month) \<Rightarrow> Some (year @ ''/'' @ month)
      | None \<Rightarrow> None)"

text \<open>
  What \<open>pd.read_csv\<close> hands to \<open>load_file\<close>: the rows with their integer columns
  parsed, each monetary cell either a number or blank/unparsable (\<open>None\<close>), each
  start-period cell a text or null, and whether the start-period column is present.
\<close>

record raw_row =
  raw_office_code :: int
  raw_office_name :: string
  raw_dept_code :: int
  raw_dept_name :: string
  raw_report_type :: int
  raw_account_code :: int
  raw_account_name :: string
  raw_prior_balance :: "real option"
  raw_debit :: "real option"
  raw_credit :: "real option"
  raw_balance :: "real option"
  raw_start_period :: "string option"

record raw_csv =
  has_start_period :: bool
  raw_rows :: "raw_row list"

text \<open>\<open>pd.to_numeric(..., errors='coerce').fillna(0)\<close> on one cell.\<close>

definition to_numeric_fillna :: "real option \<Rightarrow> real" where
  "to_numeric_fillna c = (case c of None \<Rightarrow> 0 | Some v \<Rightarrow> v)"

fun dropna :: "'a option list \<Rightarrow> 'a list" where
  "dropna [] = []"
| "dropna (None # xs) = dropna xs"
| "dropna (Some x # xs) = x # dropna xs"

definition tag_row :: "string \<Rightarrow> string option \<Rightarrow> raw_row \<Rightarrow> row" where
  "tag_row filename ym r =
     \<lparr>office_code = raw_office_code r, office_name = raw_office_name r,
      dept_code = raw_dept_code r, dept_name = raw_dept_name r,
      report_type = raw_report_type r, account_code = raw_account_code r,
      account_name = raw_account_name r,
      prior_balance = to_numeric_fillna (raw_prior_balance r),
      debit = to_numeric_fillna (raw_debit r),
      credit = to_numeric_fillna (raw_credit r),
      balance = to_numeric_fillna (raw_balance r),
      start_period = raw_start_period r,
      source_file = filename, year_month = ym\<rparr>"

text \<open>
  \<open>load_file\<close> on the file named \<open>filename\<close>; \<open>parsed\<close> is what \<open>pd.read_csv\<close>
  yields for it, \<open>None\<close> when it raises.
\<close>

definition file_period :: "string \<Rightarrow> raw_csv \<Rightarrow> string option option" where
  "file_period filename csv = do {
     let ym = extract_year_month_from_filename filename;
     if ym = None \<and> has_start_period csv then do {
       let valid = dropna (map raw_start_period (raw_rows csv));
       first_valid \<leftarrow> (if valid \<noteq> [] then map_option Some (iloc0 valid) else Some None);
       Some first_valid
     } else Some ym
   }"

definition load_file :: "string \<Rightarrow> raw_csv option \<Rightarrow> row list option" where
  "load_file filename parsed = do {
     csv \<leftarrow> parsed;
     ym \<leftarrow> file_period filename csv;
     Some (map (tag_row filename ym) (raw_rows csv))
   }"

text \<open>
  The data folder: whether it exists, and its entries, each a file name with what
  \<open>pd.read_csv\<close> yields for that file. The loader object caches the Ledger
  (\<open>_df\<close>, here \<open>priv_df\<close>) and the list of loaded file names (\<open>_loaded_files\<close>,
  here \<open>priv_loaded_files\<close>).
\<close>

record filesystem =
  folder_exists :: bool
  entries :: "(string \<times> raw_csv option) list"

record loader =
  priv_df :: "row list option"
  priv_loaded_files :: "string list"

definition loaded_files :: "loader \<Rightarrow> string list" where
  "loaded_files self = priv_loaded_files self"

definition is_csv_name :: "string \<Rightarrow> bool" where
  "is_csv_name name = (length name \<ge> 4 \<and> drop (length name - 4) name = ''.csv'')"

definition glob_csv :: "filesystem \<Rightarrow> (string \<times> raw_csv option) list" where
  "glob_csv fs = sort_key fst (filter (\<lambda>e. is_csv_name (fst e)) (entries fs))"

text \<open>
  The loop of \<open>load_all\<close>: a file that loads is appended to both lists, a file whose
  load raises is skipped with a warning.
\<close>

fun load_loop ::
  "(string \<times> raw_csv option) list \<Rightarrow> row list list \<times> string list
     \<Rightarrow> row list list \<times> string list" where
  "load_loop [] acc = acc"
| "load_loop ((name, parsed) # files) (dfs, names) =
     (case load_file name parsed of
        Some d \<Rightarrow> load_loop files (dfs @ [d], names @ [name])
      | None \<Rightarrow> load_loop files (dfs, names))"

definition load_all :: "filesystem \<Rightarrow> loader \<Rightarrow> row list \<times> loader \<times> filesystem" where
  "load_all fs self =
     (if \<not> folder_exists fs then
        ([], self\<lparr>priv_df := Some []\<rparr>, fs\<lparr>folder_exists := True\<rparr>)
      else
        let csv_files = glob_csv fs in
        if csv_files = [] then ([], self\<lparr>priv_df := Some []\<rparr>, fs)
        else
          let (dfs, names) = load_loop csv_files ([], []);
              d = (if dfs \<noteq> [] then concat dfs else [])
          in (d, self\<lparr>priv_df := Some d, priv_loaded_files := names\<rparr>, fs))"

definition reload :: "filesystem \<Rightarrow> loader \<Rightarrow> row list \<times> loader \<times> filesystem" where
  "reload fs self = load_all fs (self\<lparr>priv_df := None, priv_loaded_files := []\<rparr>)"

text \<open>The lazy property \<open>df\<close> of the loader.\<close>

definition loader_df :: "filesystem \<Rightarrow> loader \<Rightarrow> row list \<times> loader \<times> filesystem" where
  "loader_df fs self =
     (case priv_df self of None \<Rightarrow> load_all fs self | Some d \<Rightarrow> (d, self, fs))"

definition get_departments ::
  "filesystem \<Rightarrow> loader \<Rightarrow> (int \<times> string) list \<times> loader \<times> filesystem" where
  "get_departments fs self =
     (let (d, self', fs') = loader_df fs self
      in if d = [] then ([], self', fs')
         else (sort_key fst (unique (map (\<lambda>r. (dept_code r, dept_name r)) d)), self', fs'))"

definition get_periods :: "filesystem \<Rightarrow> loader \<Rightarrow> string list \<times> loader \<times> filesystem" where
  "get_periods fs self =
     (let (d, self', fs') = loader_df fs self
      in if d = [] then ([], self', fs')
         else (let periods = unique (dropna (map year_month d))
               in (sort periods, self', fs')))"

definition get_latest_period ::
  "filesystem \<Rightarrow> loader \<Rightarrow> string option \<times> loader \<times> filesystem" where
  "get_latest_period fs self =
     (let (periods, self', fs') = get_periods fs self
      in (if periods \<noteq> [] then Some (last periods) else None, self', fs'))"

section \<open>Example data\<close>

text \<open>
  \<open>mk_row\<close> builds a Ledger row from the columns that the aggregator reads; the
  other columns get fixed values. \<open>example_ledger\<close> is the two-department Ledger of
  the specification's example scenario.
\<close>

definition mk_row ::
  "int \<Rightarrow> string \<Rightarrow> int \<Rightarrow> int \<Rightarrow> string \<Rightarrow> real \<Rightarrow> string option \<Rightarrow> row" where
  "mk_row dc dn rt ac an bal ym =
     \<lparr>office_code = 1, office_name = ''HQ'', dept_code = dc, dept_name = dn,
      report_type = rt, account_code = ac, account_name = an, prior_balance = 0,
      debit = 0, credit = 0, balance = bal, start_period = None,
      source_file = ''2025_07_pl.csv'', year_month = ym\<rparr>"

definition example_ledger :: "row list" where
  "example_ledger =
     [mk_row 210 ''Kenki'' 0 4199 ''revenue'' 10000000 (Some ''2025/07''),
      mk_row 210 ''Kenki'' 0 5400 ''gross profit'' 3000000 (Some ''2025/07''),
      mk_row 210 ''Kenki'' 0 7000 ''operating income'' 2500000 (Some ''2025/07''),
      mk_row 210 ''Kenki'' 0 8000 ''ordinary income'' 2400000 (Some ''2025/07''),
      mk_row 210 ''Kenki'' 0 9000 ''net income'' 2000000 (Some ''2025/07''),
      mk_row 220 ''Infra'' 0 4199 ''revenue'' 8000000 (Some ''2025/07'')]"

text \<open>
  Further Ledgers for the examples: one whose department has no revenue line; one with
  SGA line items, two of which have the same total (150); one where department 220 has a
  manufacturing-cost line in the main statement but no row in the cost supplement.
\<close>

definition zero_revenue_ledger :: "row list" where
  "zero_revenue_ledger =
     [mk_row 210 ''Kenki'' 0 5400 ''gross profit'' 3000000 (Some ''2025/07''),
      mk_row 210 ''Kenki'' 0 7000 ''operating income'' 2500000 (Some ''2025/07'')]"

definition sga_ledger :: "row list" where
  "sga_ledger =
     [mk_row 210 ''Kenki'' 0 6001 ''salaries'' 100 (Some ''2025/07''),
      mk_row 220 ''Infra'' 0 6001 ''salaries'' 50 (Some ''2025/07''),
      mk_row 210 ''Kenki'' 0 6002 ''travel'' 150 (Some ''2025/07''),
      mk_row 210 ''Kenki'' 0 6003 ''rent'' 0 (Some ''2025/07''),
      mk_row 210 ''Kenki'' 0 6100 ''advertising'' 400 (Some ''2025/07''),
      mk_row 210 ''Kenki'' 0 6299 ''sga total'' 700 (Some ''2025/07'')]"

definition cost_ledger :: "row list" where
  "cost_ledger =
     [mk_row 210 ''Kenki'' 1 5419 ''material'' 3000000 (Some ''2025/07''),
      mk_row 210 ''Kenki'' 1 5439 ''labor'' 2000000 (Some ''2025/07''),
      mk_row 210 ''Kenki'' 1 5469 ''expense'' 1500000 (Some ''2025/07''),
      mk_row 210 ''Kenki'' 0 5299 ''manufacturing cost'' 6500000 (Some ''2025/07''),
      mk_row 220 ''Infra'' 0 5299 ''manufacturing cost'' 4000000 (Some ''2025/07'')]"

text \<open>
  Parsed files for the examples: \<open>ex_csv\<close> has two rows, the first with a null
  start-period cell; \<open>ex_fs\<close> is a data folder holding one such file.
\<close>

definition ex_raw :: "int \<Rightarrow> int \<Rightarrow> real option \<Rightarrow> string option \<Rightarrow> raw_row" where
  "ex_raw dc ac bal sp =
     \<lparr>raw_office_code = 1, raw_office_name = ''HQ'', raw_dept_code = dc,
      raw_dept_name = ''Kenki'', raw_report_type = 0, raw_account_code = ac,
      raw_account_name = ''revenue'', raw_prior_balance = None, raw_debit = None,
      raw_credit = None, raw_balance = bal, raw_start_period = sp\<rparr>"

definition ex_csv :: raw_csv where
  "ex_csv = \<lparr>has_start_period = True,
      raw_rows = [ex_raw 210 4199 (Some 10000000) None,
                  ex_raw 210 5400 None (Some ''2025/07'')]\<rparr>"

definition ex_fs :: filesystem where
  "ex_fs = \<lparr>folder_exists = True, entries = [(''2025_07_pl.csv'', Some ex_csv)]\<rparr>"

text \<open>A Ledger whose rows are not in the order of their periods, with a null period.\<close>

definition ex_period_ledger :: "row list" where
  "ex_period_ledger =
     [mk_row 210 ''Kenki'' 0 4199 ''revenue'' 1 (Some ''2025/08''),
      mk_row 210 ''Kenki'' 0 4199 ''revenue'' 2 (Some ''2025/07''),
      mk_row 210 ''Kenki'' 0 4199 ''revenue'' 3 None,
      mk_row 220 ''Infra'' 0 4199 ''revenue'' 4 (Some ''2025/08'')]"

text \<open>A fresh loader object, and the data folder of \<open>ex_fs\<close> after its file is removed.\<close>

definition ex_loader :: loader where
  "ex_loader = \<lparr>priv_df = None, priv_loaded_files = []\<rparr>"

definition ex_fs_emptied :: filesystem where
  "ex_fs_emptied = ex_fs\<lparr>entries := []\<rparr>"

section \<open>Notions of the specification\<close>

text \<open>
  The specification's "first-match balance lookup" of an account code within a set of
  rows, and that lookup within the rows of one department.
\<close>

definition first_match_balance :: "row list \<Rightarrow> int \<Rightarrow> real" where
  "first_match_balance rows code =
     (case find (\<lambda>r. account_code r = code) rows of None \<Rightarrow> 0 | Some r \<Rightarrow> balance r)"

definition dept_lookup :: "row list \<Rightarrow> account_key \<Rightarrow> int \<Rightarrow> real" where
  "dept_lookup main_df k c =
     first_match_balance (filter (\<lambda>r. dept_code r = c) main_df) (ACCOUNT_CODES k)"

text \<open>
  The rows of a Ledger in the scope of a department/period selection (\<open>None\<close> selects
  all) that belong to report type \<open>rt\<close>.
\<close>

definition scope_rows :: "row list \<Rightarrow> int option \<Rightarrow> string option \<Rightarrow> int \<Rightarrow> row list" where
  "scope_rows d dc ym rt =
     filter (\<lambda>r. (dc = None \<or> Some (dept_code r) = dc) \<and> (ym = None \<or> year_month r = ym)
                 \<and> report_type r = rt) d"

text \<open>
  The company-wide total of a KPI: the sum, over the distinct department codes present
  in the rows, of the first-match lookup of the KPI's account code within that
  department's rows.
\<close>

definition company_total :: "row list \<Rightarrow> account_key \<Rightarrow> real" where
  "company_total main_df k = (\<Sum>c \<in> dept_code ` set main_df. dept_lookup main_df k c)"

text \<open>
  The fixed-shape KPI record for seven looked-up values, with the four margins as the
  specification defines them (0 when the revenue is 0).
\<close>

definition kpi_of :: "real \<Rightarrow> real \<Rightarrow> real \<Rightarrow> real \<Rightarrow> real \<Rightarrow> real \<Rightarrow> real \<Rightarrow> kpi" where
  "kpi_of rv cs gp sg oi od ni =
     \<lparr>revenue = rv, cost_of_sales = cs, gross_profit = gp, sga = sg,
      operating_income = oi, ordinary_income = od, net_income = ni,
      gross_margin = (if rv \<noteq> 0 then gp / rv * 100 else 0),
      op_margin = (if rv \<noteq> 0 then oi / rv * 100 else 0),
      ord_margin = (if rv \<noteq> 0 then od / rv * 100 else 0),
      net_margin = (if rv \<noteq> 0 then ni / rv * 100 else 0)\<rparr>"

text \<open>
  The flat sum of an account code: the sum of balance over all rows with that code, the
  departments taken together. \<open>in_sga_range\<close> is the half-open range of the SGA line
  items.
\<close>

definition flat_sum :: "row list \<Rightarrow> int \<Rightarrow> real" where
  "flat_sum rows code = sum_list (map balance (filter (\<lambda>r. account_code r = code) rows))"

text \<open>
  The item that the SGA breakdown builds for an account code, and the record that the
  cost breakdown builds for a department code; \<open>first_name\<close> is the name in the first
  of the selected rows, the empty text when there is none.
\<close>

definition first_name :: "('a \<Rightarrow> string) \<Rightarrow> 'a list \<Rightarrow> string" where
  "first_name nm rows = (case rows of [] \<Rightarrow> [] | r # _ \<Rightarrow> nm r)"

definition sga_item :: "row list \<Rightarrow> int \<Rightarrow> sga_record" where
  "sga_item sga_df code =
     \<lparr>s_account_code = code,
      s_account_name = first_name account_name (filter (\<lambda>r. account_code r = code) sga_df),
      s_amount = flat_sum sga_df code\<rparr>"

definition in_sga_range :: "int \<Rightarrow> bool" where
  "in_sga_range c = (6000 \<le> c \<and> c < 6299)"

definition cost_item :: "row list \<Rightarrow> row list \<Rightarrow> int \<Rightarrow> cost_record" where
  "cost_item cost_df main_df code =
     \<lparr>c_dept_code = code,
      c_dept_name = first_name dept_name (filter (\<lambda>r. dept_code r = code) cost_df),
      c_material = dept_lookup cost_df Material_cost code,
      c_labor = dept_lookup cost_df Labor_cost code,
      c_expense = dept_lookup cost_df Expense_cost code,
      c_mfg = dept_lookup main_df Mfg_cost code\<rparr>"







text \<open>
  The pattern of the file-name convention at position \<open>j\<close> of a text: four digits, an
  underscore, two digits, an underscore.
\<close>

definition pattern_at :: "string \<Rightarrow> nat \<Rightarrow> bool" where
  "pattern_at s j =
     (j + 8 \<le> length s
      \<and> is_digit (s ! j) \<and> is_digit (s ! (j + 1)) \<and> is_digit (s ! (j + 2))
      \<and> is_digit (s ! (j + 3)) \<and> s ! (j + 4) = CHR ''_''
      \<and> is_digit (s ! (j + 5)) \<and> is_digit (s ! (j + 6)) \<and> s ! (j + 7) = CHR ''_'')"

text \<open>The period read at position \<open>j\<close>: the year, a slash, the month.\<close>

definition period_at :: "string \<Rightarrow> nat \<Rightarrow> string" where
  "period_at s j = take 4 (drop j s) @ ''/'' @ take 2 (drop (j + 5) s)"

text \<open>The first non-null cell of a column, or null.\<close>

definition first_non_null :: "'a option list \<Rightarrow> 'a option" where
  "first_non_null cells = (case find (\<lambda>c. c \<noteq> None) cells of Some c \<Rightarrow> c | None \<Rightarrow> None)"

text \<open>The two groups of a match at position \<open>j\<close>: the year and the month.\<close>

definition groups_at :: "string \<Rightarrow> nat \<Rightarrow> string \<times> string" where
  "groups_at s j = (take 4 (drop j s), take 2 (drop (j + 5) s))"

section \<open>Helper lemmas\<close>

subsection \<open>Lookups and distinct values\<close>

lemma iloc0_Cons: "iloc0 (x # xs) = Some x"
  by (simp add: iloc0_def)

lemma get_account_value_find:
  "get_account_value d code vc =
     Some (case find (\<lambda>r. account_code r = code) d of
             None \<Rightarrow> 0 | Some r \<Rightarrow> column_value vc r)"
proof (induction d)
  case Nil
  show ?case by (simp add: get_account_value_def)
next
  case (Cons a d)
  show ?case
  proof (cases "account_code a = code")
    case True
    then show ?thesis by (simp add: get_account_value_def iloc0_Cons)
  next
    case False
    with Cons show ?thesis by (simp add: get_account_value_def)
  qed
qed

lemma set_unique_from: "set (unique_from seen xs) = set xs - set seen"
  by (induction xs arbitrary: seen) auto

lemma distinct_unique_from: "distinct (unique_from seen xs)"
  by (induction xs arbitrary: seen) (auto simp: set_unique_from)

lemma set_unique: "set (unique xs) = set xs"
  by (simp add: unique_def set_unique_from)

lemma distinct_unique: "distinct (unique xs)"
  by (simp add: unique_def distinct_unique_from)

lemma get_account_value_balance:
  "get_account_value d code Balance = Some (first_match_balance d code)"
  by (simp add: get_account_value_find first_match_balance_def split: option.splits)

lemma kpi_loop_sums:
  "kpi_loop m codes (a1, a2, a3, a4, a5, a6, a7) =
     Some (a1 + sum_list (map (dept_lookup m Revenue) codes),
           a2 + sum_list (map (dept_lookup m Cost_of_sales) codes),
           a3 + sum_list (map (dept_lookup m Gross_profit) codes),
           a4 + sum_list (map (dept_lookup m Sga) codes),
           a5 + sum_list (map (dept_lookup m Operating_income) codes),
           a6 + sum_list (map (dept_lookup m Ordinary_income) codes),
           a7 + sum_list (map (dept_lookup m Net_income) codes))"
proof (induction codes arbitrary: a1 a2 a3 a4 a5 a6 a7)
  case Nil
  show ?case by simp
next
  case (Cons c codes)
  show ?case
    by (simp only: kpi_loop.simps Let_def get_account_value_balance Option.bind.simps Cons
        dept_lookup_def list.map sum_list.Cons) (simp add: add.assoc)
qed

lemma sum_list_unique:
  "sum_list (map f (unique xs)) = sum f (set xs)"
  using sum_list_distinct_conv_sum_set [OF distinct_unique, of f xs]
  by (simp add: set_unique)

lemma margin_Some: "margin a b = Some (if b \<noteq> 0 then a / b * 100 else 0)"
  by (simp add: margin_def py_div_def)

subsection \<open>Filters and KPI records\<close>

lemma apply_filters_scope:
  "filter (\<lambda>r. report_type r = rt) (apply_filters d dc ym) = scope_rows d dc ym rt"
  by (cases dc; cases ym) (auto simp: apply_filters_def scope_rows_def intro: filter_cong)

lemma main_accounts_scope:
  "get_main_accounts self (Some (apply_filters d dc ym)) = scope_rows d dc ym 0"
  by (simp add: get_main_accounts_def apply_filters_scope)

lemma cost_breakdown_scope:
  "get_cost_breakdown self (Some (apply_filters d dc ym)) = scope_rows d dc ym 1"
  by (simp add: get_cost_breakdown_def apply_filters_scope)

lemma calculate_kpi_company:
  "calculate_kpi self None ym =
     (let m = get_main_accounts self (Some (apply_filters (df self) None ym)) in
      Some (kpi_of (company_total m Revenue) (company_total m Cost_of_sales)
         (company_total m Gross_profit) (company_total m Sga)
         (company_total m Operating_income) (company_total m Ordinary_income)
         (company_total m Net_income)))"
  by (simp add: calculate_kpi_def Let_def kpi_loop_sums sum_list_unique margin_Some
      company_total_def kpi_of_def)

lemma calculate_kpi_dept:
  "calculate_kpi self (Some d) ym =
     (let m = get_main_accounts self (Some (apply_filters (df self) (Some d) ym)) in
      Some (kpi_of (first_match_balance m (ACCOUNT_CODES Revenue))
         (first_match_balance m (ACCOUNT_CODES Cost_of_sales))
         (first_match_balance m (ACCOUNT_CODES Gross_profit))
         (first_match_balance m (ACCOUNT_CODES Sga))
         (first_match_balance m (ACCOUNT_CODES Operating_income))
         (first_match_balance m (ACCOUNT_CODES Ordinary_income))
         (first_match_balance m (ACCOUNT_CODES Net_income))))"
  by (simp add: calculate_kpi_def Let_def get_account_value_balance margin_Some kpi_of_def)


lemma calculate_kpi_kpi_of:
  "\<exists>rv cs gp sg oi od ni. calculate_kpi self dc ym = Some (kpi_of rv cs gp sg oi od ni)"
proof (cases dc)
  case None
  then show ?thesis by (simp add: calculate_kpi_company Let_def) blast
next
  case (Some d)
  then show ?thesis by (simp add: calculate_kpi_dept Let_def) blast
qed

subsection \<open>Breakdown tables\<close>

lemma guarded_iloc0:
  "(if xs \<noteq> [] then iloc0 (map f xs) else Some []) = Some (first_name f xs)"
  by (cases xs) (simp_all add: iloc0_def first_name_def)

lemma sga_loop_eq:
  "sga_loop d codes = Some (filter (\<lambda>i. s_amount i \<noteq> 0) (map (sga_item d) codes))"
proof (induction codes)
  case Nil
  show ?case by simp
next
  case (Cons c codes)
  have amt: "s_amount (sga_item d c) = sum_list (map balance (filter (\<lambda>r. account_code r = c) d))"
    by (simp add: sga_item_def flat_sum_def)
  have item: "\<lparr>s_account_code = c,
      s_account_name = first_name account_name (filter (\<lambda>r. account_code r = c) d),
      s_amount = sum_list (map balance (filter (\<lambda>r. account_code r = c) d))\<rparr> = sga_item d c"
    by (simp add: sga_item_def flat_sum_def)
  show ?case
    by (simp only: sga_loop.simps Let_def guarded_iloc0 Option.bind.simps Cons item)
       (simp add: amt)
qed

lemma get_sga_breakdown_eq:
  "get_sga_breakdown self dc ym =
     (let s = filter (\<lambda>r. in_sga_range (account_code r)) (scope_rows (df self) dc ym 0);
          items = filter (\<lambda>i. s_amount i \<noteq> 0) (map (sga_item s) (unique (map account_code s)))
      in Some \<lparr>columns = (if items = [] then [] else sga_keys),
               records = sort_key (\<lambda>i. - s_amount i) items\<rparr>)"
  by (simp add: get_sga_breakdown_def Let_def main_accounts_scope sga_loop_eq DataFrame_def
      in_sga_range_def)

lemma flat_sum_range:
  "in_sga_range c \<Longrightarrow>
   flat_sum (filter (\<lambda>r. in_sga_range (account_code r)) m) c = flat_sum m c"
proof -
  assume a: "in_sga_range c"
  have "filter (\<lambda>r. account_code r = c) (filter (\<lambda>r. in_sga_range (account_code r)) m)
        = filter (\<lambda>r. account_code r = c) m"
    using a by (auto simp: filter_filter intro: filter_cong)
  then show ?thesis by (simp add: flat_sum_def)
qed

lemma sorted_uminus_map:
  "sorted (map (\<lambda>i. - f i) xs) = sorted_wrt (\<lambda>a b. a \<ge> b) (map (f :: 'a \<Rightarrow> real) xs)"
  by (induction xs) auto

lemma sga_ledger_result:
  "get_sga_breakdown \<lparr>df = sga_ledger\<rparr> None None =
     Some \<lparr>columns = sga_keys,
           records = [\<lparr>s_account_code = 6100, s_account_name = ''advertising'', s_amount = 400\<rparr>,
                      \<lparr>s_account_code = 6001, s_account_name = ''salaries'', s_amount = 150\<rparr>,
                      \<lparr>s_account_code = 6002, s_account_name = ''travel'', s_amount = 150\<rparr>]\<rparr>"
  by (simp add: get_sga_breakdown_def Let_def get_main_accounts_def apply_filters_def
      sga_ledger_def mk_row_def unique_def iloc0_def DataFrame_def)

lemma cost_dept_loop_eq:
  "cost_dept_loop c m codes = Some (map (cost_item c m) codes)"
proof (induction codes)
  case Nil
  show ?case by simp
next
  case (Cons x codes)
  show ?case
    by (simp only: cost_dept_loop.simps Let_def guarded_iloc0 Option.bind.simps Cons
        get_account_value_balance)
       (simp add: cost_item_def dept_lookup_def)
qed

lemma sort_unique: "sort (unique xs) = sorted_list_of_set (set xs)"
  by (metis distinct_unique set_unique sorted_list_of_set_sort_remdups distinct_remdups_id)

lemma get_cost_breakdown_by_dept_eq:
  "get_cost_breakdown_by_dept self ym =
     (let c = scope_rows (df self) None ym 1; m = scope_rows (df self) None ym 0;
          items = map (cost_item c m) (sorted_list_of_set (dept_code ` set c))
      in Some \<lparr>columns = (if items = [] then [] else cost_keys), records = items\<rparr>)"
  by (simp add: get_cost_breakdown_by_dept_def Let_def main_accounts_scope cost_breakdown_scope
      cost_dept_loop_eq DataFrame_def sort_unique)

lemma cost_ledger_result:
  "get_cost_breakdown_by_dept \<lparr>df = cost_ledger\<rparr> None =
     Some \<lparr>columns = cost_keys,
           records = [\<lparr>c_dept_code = 210, c_dept_name = ''Kenki'', c_material = 3000000,
                        c_labor = 2000000, c_expense = 1500000, c_mfg = 6500000\<rparr>]\<rparr>"
  by (simp add: get_cost_breakdown_by_dept_def Let_def get_main_accounts_def
      get_cost_breakdown_def apply_filters_def cost_ledger_def mk_row_def unique_def iloc0_def
      DataFrame_def get_account_value_def)

subsection \<open>Selections without data, and calls\<close>







subsection \<open>The loader\<close>

lemma match_here_pattern:
  "match_here s = (if pattern_at s 0 then Some (take 4 s, take 2 (drop 5 s)) else None)"
  by (cases s rule: match_here.cases) (simp_all add: pattern_at_def)

lemma pattern_at_Cons: "pattern_at (c # cs) (Suc j) = pattern_at cs j"
  by (simp only: pattern_at_def add_Suc nth_Cons_Suc) (simp add: add.commute)

lemma groups_at_Cons: "groups_at (c # cs) (Suc j) = groups_at cs j"
  by (simp only: groups_at_def add_Suc drop_Suc_Cons)

lemma find_map_option: "find P (map f xs) = map_option f (find (\<lambda>x. P (f x)) xs)"
  by (induction xs) simp_all

lemma find_upt_Suc:
  "find P [0..<Suc n] = (if P 0 then Some 0 else map_option Suc (find (\<lambda>j. P (Suc j)) [0..<n]))"
proof -
  have "[0..<Suc n] = 0 # map Suc [0..<n]"
    by (simp add: upt_conv_Cons map_Suc_upt del: upt_Suc)
  then show ?thesis by (simp add: find_map_option del: upt_Suc)
qed

lemma re_search_find:
  "re_search s = map_option (groups_at s) (find (pattern_at s) [0..<length s])"
proof (induction s)
  case Nil
  show ?case by simp
next
  case (Cons c cs)
  show ?case
  proof (cases "pattern_at (c # cs) 0")
    case True
    then show ?thesis
      by (simp add: match_here_pattern find_upt_Suc groups_at_def del: upt_Suc)
  next
    case False
    then show ?thesis
      by (simp add: match_here_pattern find_upt_Suc pattern_at_Cons groups_at_Cons Cons
          option.map_comp comp_def del: upt_Suc)
  qed
qed

lemma extract_find:
  "extract_year_month_from_filename s =
     map_option (period_at s) (find (pattern_at s) [0..<length s])"
  by (simp add: extract_year_month_from_filename_def re_search_find period_at_def
      groups_at_def split: option.splits)

lemma dropna_first_non_null:
  "(case dropna cells of [] \<Rightarrow> None | x # _ \<Rightarrow> Some x) = first_non_null cells"
  by (induction cells rule: dropna.induct) (simp_all add: first_non_null_def)

lemma file_period_eq:
  "file_period name csv =
     Some (case extract_year_month_from_filename name of
             Some p \<Rightarrow> Some p
           | None \<Rightarrow> if has_start_period csv
                     then first_non_null (map raw_start_period (raw_rows csv)) else None)"
proof -
  have "\<And>xs :: string list. (if xs \<noteq> [] then map_option Some (iloc0 xs) else Some None)
      = Some (case xs of [] \<Rightarrow> None | x # _ \<Rightarrow> Some x)"
    by (simp add: iloc0_def split: list.splits)
  then show ?thesis
    by (simp add: file_period_def Let_def dropna_first_non_null split: option.splits)
qed

lemma ex_extract:
  "extract_year_month_from_filename ''prefix_2025_08_suffix.csv'' = Some ''2025/08''"
  "extract_year_month_from_filename ''invalid_filename.csv'' = None"
  by (simp_all add: extract_year_month_from_filename_def is_digit_def)

lemma set_dropna: "set (dropna xs) = {x. Some x \<in> set xs}"
  by (induction xs rule: dropna.induct) auto

lemma get_periods_eq:
  "fst (get_periods fs self) =
     sorted_list_of_set {p. Some p \<in> year_month ` set (fst (loader_df fs self))}"
proof -
  obtain d s' fs' where l: "loader_df fs self = (d, s', fs')" by (cases "loader_df fs self")
  have "sort (unique (dropna (map year_month d)))
          = sorted_list_of_set {p. Some p \<in> year_month ` set d}"
    by (simp add: sort_unique set_dropna)
  then show ?thesis
    by (cases "d = []") (simp_all add: get_periods_def l Let_def)
qed

lemma finite_periods: "finite {p. Some p \<in> year_month ` set d}"
proof -
  have "{p. Some p \<in> year_month ` set d} = set (dropna (map year_month d))"
    by (simp add: set_dropna)
  then show ?thesis by (simp only: finite_set)
qed

lemma get_latest_period_eq:
  "fst (get_latest_period fs self) =
     (if fst (get_periods fs self) = [] then None else Some (last (fst (get_periods fs self))))"
  by (cases "get_periods fs self") (simp add: get_latest_period_def Let_def)

lemma ex_periods:
  "fst (get_periods ex_fs \<lparr>priv_df = Some ex_period_ledger, priv_loaded_files = []\<rparr>)
     = [''2025/07'', ''2025/08'']"
  by (simp add: get_periods_def loader_df_def Let_def ex_period_ledger_def mk_row_def
      unique_def)

lemma load_all_nothing_to_load:
  assumes "\<not> folder_exists fs \<or> glob_csv fs = []"
  shows "load_all fs self = ([], self\<lparr>priv_df := Some []\<rparr>, fs\<lparr>folder_exists := True\<rparr>)"
  using assms by (auto simp: load_all_def Let_def)

lemma ex_first_load:
  "loaded_files (fst (snd (load_all ex_fs ex_loader))) = [''2025_07_pl.csv'']
   \<and> length (fst (load_all ex_fs ex_loader)) = 2"
  by (simp add: load_all_def glob_csv_def ex_fs_def is_csv_name_def Let_def load_file_def
      file_period_def extract_year_month_from_filename_def is_digit_def ex_csv_def
      loaded_files_def ex_loader_def)

section \<open>The account lookup\<close>

text \<open>
  C6. \<open>get_account_value\<close> never raises. When a row with the requested account code
  exists, the result is the requested column of the first such row (every row before it
  has another code); when no row has the code, the result is exactly 0.
\<close>

theorem get_account_value_first_match:
  "(\<forall>pre r post.
      d = pre @ r # post \<and> account_code r = code
        \<and> (\<forall>q \<in> set pre. account_code q \<noteq> code)
      \<longrightarrow> get_account_value d code vc = Some (column_value vc r))
   \<and> ((\<forall>q \<in> set d. account_code q \<noteq> code) \<longrightarrow> get_account_value d code vc = Some 0)
   \<and> get_account_value d code Balance \<noteq> None"
proof (intro conjI allI impI)
  fix pre r post
  assume h: "d = pre @ r # post \<and> account_code r = code
    \<and> (\<forall>q \<in> set pre. account_code q \<noteq> code)"
  then have "find (\<lambda>r. account_code r = code) d = Some r"
    by (induction pre arbitrary: d) auto
  then show "get_account_value d code vc = Some (column_value vc r)"
    by (simp add: get_account_value_find)
next
  assume "\<forall>q \<in> set d. account_code q \<noteq> code"
  then have "find (\<lambda>r. account_code r = code) d = None"
    by (simp add: find_None_iff)
  then show "get_account_value d code vc = Some 0"
    by (simp add: get_account_value_find)
next
  show "get_account_value d code Balance \<noteq> None"
    by (simp add: get_account_value_find)
qed

theorem get_account_value_first_match_witness:
  "get_account_value example_ledger 5400 Balance = Some 3000000
   \<and> get_account_value example_ledger 1234 Balance = Some 0"
proof -
  let ?r = "mk_row 210 ''Kenki'' 0 5400 ''gross profit'' 3000000 (Some ''2025/07'')"
  let ?pre = "[mk_row 210 ''Kenki'' 0 4199 ''revenue'' 10000000 (Some ''2025/07'')]"
  let ?post = "[mk_row 210 ''Kenki'' 0 7000 ''operating income'' 2500000 (Some ''2025/07''),
      mk_row 210 ''Kenki'' 0 8000 ''ordinary income'' 2400000 (Some ''2025/07''),
      mk_row 210 ''Kenki'' 0 9000 ''net income'' 2000000 (Some ''2025/07''),
      mk_row 220 ''Infra'' 0 4199 ''revenue'' 8000000 (Some ''2025/07'')]"
  have a: "example_ledger = ?pre @ ?r # ?post \<and> account_code ?r = 5400
     \<and> (\<forall>q \<in> set ?pre. account_code q \<noteq> 5400)"
    by (simp add: example_ledger_def mk_row_def)
  have b: "\<forall>q \<in> set example_ledger. account_code q \<noteq> 1234"
    by (simp add: example_ledger_def mk_row_def)
  from get_account_value_first_match [of example_ledger 5400 Balance] a
  have "get_account_value example_ledger 5400 Balance = Some (column_value Balance ?r)"
    by blast
  moreover from get_account_value_first_match [of example_ledger 1234 Balance] b
  have "get_account_value example_ledger 1234 Balance = Some 0"
    by blast
  ultimately show ?thesis by (simp add: mk_row_def)
qed

section \<open>KPI computation and breakdowns\<close>

text \<open>
  C1. Company-wide, \<open>calculate_kpi\<close> returns a record (it does not raise) in which
  each of the seven KPI fields is the sum, over the distinct department codes present in
  the period-filtered report-type-0 rows, of the first-match balance lookup of that KPI's
  account code within that department's rows. On the specification's two-department
  Ledger the company-wide revenue for 2025/07 is 18000000 and the gross margin of
  department 210 is 30.
\<close>

theorem calculate_kpi_company_wide:
  "(\<exists>k. calculate_kpi self None ym = Some k
      \<and> revenue k = company_total (scope_rows (df self) None ym 0) Revenue
      \<and> cost_of_sales k = company_total (scope_rows (df self) None ym 0) Cost_of_sales
      \<and> gross_profit k = company_total (scope_rows (df self) None ym 0) Gross_profit
      \<and> sga k = company_total (scope_rows (df self) None ym 0) Sga
      \<and> operating_income k = company_total (scope_rows (df self) None ym 0) Operating_income
      \<and> ordinary_income k = company_total (scope_rows (df self) None ym 0) Ordinary_income
      \<and> net_income k = company_total (scope_rows (df self) None ym 0) Net_income)
   \<and> map_option revenue (calculate_kpi \<lparr>df = example_ledger\<rparr> None (Some ''2025/07''))
       = Some 18000000
   \<and> map_option gross_margin (calculate_kpi \<lparr>df = example_ledger\<rparr> (Some 210) (Some ''2025/07''))
       = Some 30"
proof (intro conjI)
  show "\<exists>k. calculate_kpi self None ym = Some k
      \<and> revenue k = company_total (scope_rows (df self) None ym 0) Revenue
      \<and> cost_of_sales k = company_total (scope_rows (df self) None ym 0) Cost_of_sales
      \<and> gross_profit k = company_total (scope_rows (df self) None ym 0) Gross_profit
      \<and> sga k = company_total (scope_rows (df self) None ym 0) Sga
      \<and> operating_income k = company_total (scope_rows (df self) None ym 0) Operating_income
      \<and> ordinary_income k = company_total (scope_rows (df self) None ym 0) Ordinary_income
      \<and> net_income k = company_total (scope_rows (df self) None ym 0) Net_income"
    by (simp add: calculate_kpi_company main_accounts_scope Let_def kpi_of_def)
next
  show "map_option revenue (calculate_kpi \<lparr>df = example_ledger\<rparr> None (Some ''2025/07''))
       = Some 18000000"
    by (simp add: calculate_kpi_def Let_def get_main_accounts_def apply_filters_def
        example_ledger_def mk_row_def unique_def get_account_value_def iloc0_def
        margin_def py_div_def)
next
  show "map_option gross_margin
          (calculate_kpi \<lparr>df = example_ledger\<rparr> (Some 210) (Some ''2025/07'')) = Some 30"
    by (simp add: calculate_kpi_def Let_def get_main_accounts_def apply_filters_def
        example_ledger_def mk_row_def get_account_value_def iloc0_def margin_def py_div_def)
qed

theorem calculate_kpi_company_wide_witness:
  "\<exists>k. calculate_kpi \<lparr>df = example_ledger\<rparr> None (Some ''2025/07'') = Some k
      \<and> revenue k = 18000000 \<and> net_income k = 2000000"
proof -
  from calculate_kpi_company_wide [of "\<lparr>df = example_ledger\<rparr>" "Some ''2025/07''"]
  obtain k where k: "calculate_kpi \<lparr>df = example_ledger\<rparr> None (Some ''2025/07'') = Some k"
    and r: "revenue k = company_total
              (scope_rows (df \<lparr>df = example_ledger\<rparr>) None (Some ''2025/07'') 0) Revenue"
    and n: "net_income k = company_total
              (scope_rows (df \<lparr>df = example_ledger\<rparr>) None (Some ''2025/07'') 0) Net_income"
    by blast
  have "company_total (scope_rows (df \<lparr>df = example_ledger\<rparr>) None (Some ''2025/07'') 0) Revenue
          = 18000000"
    by (simp add: scope_rows_def example_ledger_def mk_row_def company_total_def
        dept_lookup_def first_match_balance_def)
  moreover have "company_total
      (scope_rows (df \<lparr>df = example_ledger\<rparr>) None (Some ''2025/07'') 0) Net_income = 2000000"
    by (simp add: scope_rows_def example_ledger_def mk_row_def company_total_def
        dept_lookup_def first_match_balance_def)
  ultimately show ?thesis using k r n by simp
qed

text \<open>
  C3. For every Ledger and every department/period selection, \<open>calculate_kpi\<close>
  returns a record (no error); when its revenue is 0 all four margins are exactly 0, and
  when its revenue is not 0 each margin is the corresponding income divided by the
  revenue, times 100.
\<close>

theorem calculate_kpi_margins:
  "\<exists>k. calculate_kpi self dc ym = Some k
     \<and> (revenue k = 0 \<longrightarrow>
          gross_margin k = 0 \<and> op_margin k = 0 \<and> ord_margin k = 0 \<and> net_margin k = 0)
     \<and> (revenue k \<noteq> 0 \<longrightarrow>
          gross_margin k = gross_profit k / revenue k * 100
          \<and> op_margin k = operating_income k / revenue k * 100
          \<and> ord_margin k = ordinary_income k / revenue k * 100
          \<and> net_margin k = net_income k / revenue k * 100)"
proof -
  obtain rv cs gp sg oi od ni
    where "calculate_kpi self dc ym = Some (kpi_of rv cs gp sg oi od ni)"
    using calculate_kpi_kpi_of by blast
  then show ?thesis by (simp add: kpi_of_def)
qed

theorem calculate_kpi_margins_witness:
  "(\<exists>k. calculate_kpi \<lparr>df = zero_revenue_ledger\<rparr> None None = Some k
      \<and> revenue k = 0 \<and> gross_profit k = 3000000
      \<and> gross_margin k = 0 \<and> op_margin k = 0 \<and> ord_margin k = 0 \<and> net_margin k = 0)
   \<and> (\<exists>k. calculate_kpi \<lparr>df = example_ledger\<rparr> (Some 210) None = Some k
      \<and> revenue k = 10000000 \<and> gross_margin k = 30 \<and> op_margin k = 25
      \<and> ord_margin k = 24 \<and> net_margin k = 20)"
proof
  from calculate_kpi_margins [of "\<lparr>df = zero_revenue_ledger\<rparr>" None None]
  obtain k where k: "calculate_kpi \<lparr>df = zero_revenue_ledger\<rparr> None None = Some k"
    and z: "revenue k = 0 \<longrightarrow>
          gross_margin k = 0 \<and> op_margin k = 0 \<and> ord_margin k = 0 \<and> net_margin k = 0"
    by blast
  have "map_option revenue (calculate_kpi \<lparr>df = zero_revenue_ledger\<rparr> None None) = Some 0"
       "map_option gross_profit (calculate_kpi \<lparr>df = zero_revenue_ledger\<rparr> None None)
          = Some 3000000"
    by (simp_all add: calculate_kpi_def Let_def get_main_accounts_def apply_filters_def
        zero_revenue_ledger_def mk_row_def unique_def get_account_value_def iloc0_def
        margin_def py_div_def)
  with k have "revenue k = 0" "gross_profit k = 3000000" by simp_all
  with k z show "\<exists>k. calculate_kpi \<lparr>df = zero_revenue_ledger\<rparr> None None = Some k
      \<and> revenue k = 0 \<and> gross_profit k = 3000000
      \<and> gross_margin k = 0 \<and> op_margin k = 0 \<and> ord_margin k = 0 \<and> net_margin k = 0"
    by simp
next
  from calculate_kpi_margins [of "\<lparr>df = example_ledger\<rparr>" "Some 210" None]
  obtain k where k: "calculate_kpi \<lparr>df = example_ledger\<rparr> (Some 210) None = Some k"
    and z: "revenue k \<noteq> 0 \<longrightarrow>
          gross_margin k = gross_profit k / revenue k * 100
          \<and> op_margin k = operating_income k / revenue k * 100
          \<and> ord_margin k = ordinary_income k / revenue k * 100
          \<and> net_margin k = net_income k / revenue k * 100"
    by blast
  have "map_option revenue (calculate_kpi \<lparr>df = example_ledger\<rparr> (Some 210) None) = Some 10000000"
       "map_option gross_profit (calculate_kpi \<lparr>df = example_ledger\<rparr> (Some 210) None) = Some 3000000"
       "map_option operating_income (calculate_kpi \<lparr>df = example_ledger\<rparr> (Some 210) None) = Some 2500000"
       "map_option ordinary_income (calculate_kpi \<lparr>df = example_ledger\<rparr> (Some 210) None) = Some 2400000"
       "map_option net_income (calculate_kpi \<lparr>df = example_ledger\<rparr> (Some 210) None) = Some 2000000"
    by (simp_all add: calculate_kpi_def Let_def get_main_accounts_def apply_filters_def
        example_ledger_def mk_row_def get_account_value_def iloc0_def margin_def py_div_def)
  with k have "revenue k = 10000000" "gross_profit k = 3000000" "operating_income k = 2500000"
    "ordinary_income k = 2400000" "net_income k = 2000000" by simp_all
  with k z show "\<exists>k. calculate_kpi \<lparr>df = example_ledger\<rparr> (Some 210) None = Some k
      \<and> revenue k = 10000000 \<and> gross_margin k = 30 \<and> op_margin k = 25
      \<and> ord_margin k = 24 \<and> net_margin k = 20"
    by simp
qed

text \<open>
  C4 (amended). \<open>get_sga_breakdown\<close> returns a table (it does not raise) with exactly
  one item for each account code that occurs in the report-type-0 rows in scope, lies in
  the half-open range from 6000 to 6299, and has a non-zero flat sum of balance over all
  those rows (all departments in scope together). The amount of an item is that flat sum,
  no amount is 0, and the amounts are in descending order, equal amounts allowed.
\<close>

theorem get_sga_breakdown_descending:
  "\<exists>f. get_sga_breakdown self dc ym = Some f
     \<and> s_account_code ` set (records f) =
          {c \<in> account_code ` set (scope_rows (df self) dc ym 0).
             6000 \<le> c \<and> c < 6299 \<and> flat_sum (scope_rows (df self) dc ym 0) c \<noteq> 0}
     \<and> (\<forall>i \<in> set (records f).
           s_amount i = flat_sum (scope_rows (df self) dc ym 0) (s_account_code i)
           \<and> s_amount i \<noteq> 0)
     \<and> distinct (map s_account_code (records f))
     \<and> sorted_wrt (\<lambda>a b. a \<ge> b) (map s_amount (records f))"
proof -
  define m where "m = scope_rows (df self) dc ym 0"
  define s where "s = filter (\<lambda>r. in_sga_range (account_code r)) m"
  define items where
    "items = filter (\<lambda>i. s_amount i \<noteq> 0) (map (sga_item s) (unique (map account_code s)))"
  define f where "f = \<lparr>columns = (if items = [] then [] else sga_keys),
               records = sort_key (\<lambda>i. - s_amount i) items\<rparr>"
  have res: "get_sga_breakdown self dc ym = Some f"
    by (simp add: get_sga_breakdown_eq Let_def f_def items_def s_def m_def)
  have code: "\<And>c. s_account_code (sga_item s c) = c" by (simp add: sga_item_def)
  have amt: "\<And>c. s_amount (sga_item s c) = flat_sum s c" by (simp add: sga_item_def)
  have cs: "account_code ` set s = {c \<in> account_code ` set m. in_sga_range c}"
    by (auto simp: s_def)
  have fs: "\<And>c. in_sga_range c \<Longrightarrow> flat_sum s c = flat_sum m c"
    by (simp add: s_def flat_sum_range)
  have set_items: "set items = sga_item s ` {c \<in> account_code ` set m. in_sga_range c
        \<and> flat_sum m c \<noteq> 0}"
    unfolding items_def
    by (auto simp: set_unique cs amt fs)
  have set_rec: "set (records f) = set items" by (simp add: f_def)
  have 1: "s_account_code ` set (records f) =
          {c \<in> account_code ` set m. 6000 \<le> c \<and> c < 6299 \<and> flat_sum m c \<noteq> 0}"
    unfolding set_rec set_items by (simp add: image_image code in_sga_range_def)
  have 2: "\<forall>i \<in> set (records f). s_amount i = flat_sum m (s_account_code i) \<and> s_amount i \<noteq> 0"
    unfolding set_rec set_items by (auto simp: code amt fs)
  have "map s_account_code (map (sga_item s) (unique (map account_code s)))
          = unique (map account_code s)"
    by (simp add: code comp_def)
  then have "distinct (map s_account_code (map (sga_item s) (unique (map account_code s))))"
    by (simp only: distinct_unique)
  then have "distinct (map s_account_code items)"
    unfolding items_def by (simp add: distinct_map_filter)
  then have 3: "distinct (map s_account_code (records f))"
    by (simp add: f_def distinct_map inj_on_def)
  have "sorted (map (\<lambda>i. - s_amount i) (records f))"
    by (simp add: f_def)
  then have 4: "sorted_wrt (\<lambda>a b. a \<ge> b) (map s_amount (records f))"
    by (simp add: sorted_uminus_map)
  from res 1 2 3 4 show ?thesis unfolding m_def by blast
qed

text \<open>
  Two account codes with the same total (150 and 150) come out next to each other: the
  amounts are not strictly descending.
\<close>

theorem get_sga_breakdown_strict_counterexample:
  "map_option (\<lambda>f. map s_amount (records f)) (get_sga_breakdown \<lparr>df = sga_ledger\<rparr> None None)
     = Some [400, 150, 150]
   \<and> \<not> sorted_wrt (\<lambda>a b. a > b) [400, 150, 150 :: real]"
  by (simp add: sga_ledger_result)

theorem get_sga_breakdown_descending_witness:
  "\<exists>f. get_sga_breakdown \<lparr>df = sga_ledger\<rparr> None None = Some f
     \<and> map s_account_code (records f) = [6100, 6001, 6002]
     \<and> map s_amount (records f) = [400, 150, 150]
     \<and> s_amount (hd (records f))
         = flat_sum (scope_rows (df \<lparr>df = sga_ledger\<rparr>) None None 0) (s_account_code (hd (records f)))
     \<and> distinct (map s_account_code (records f))
     \<and> sorted_wrt (\<lambda>a b. a \<ge> b) (map s_amount (records f))"
proof -
  from get_sga_breakdown_descending [of "\<lparr>df = sga_ledger\<rparr>" None None]
  obtain f where f: "get_sga_breakdown \<lparr>df = sga_ledger\<rparr> None None = Some f"
    and a: "\<forall>i \<in> set (records f).
           s_amount i = flat_sum (scope_rows (df \<lparr>df = sga_ledger\<rparr>) None None 0) (s_account_code i)
           \<and> s_amount i \<noteq> 0"
    and d: "distinct (map s_account_code (records f))"
    and s: "sorted_wrt (\<lambda>a b. a \<ge> b) (map s_amount (records f))"
    by blast
  from f have r: "records f =
      [\<lparr>s_account_code = 6100, s_account_name = ''advertising'', s_amount = 400\<rparr>,
       \<lparr>s_account_code = 6001, s_account_name = ''salaries'', s_amount = 150\<rparr>,
       \<lparr>s_account_code = 6002, s_account_name = ''travel'', s_amount = 150\<rparr>]"
    by (auto simp: sga_ledger_result)
  then have "hd (records f) \<in> set (records f)" by simp
  with a have "s_amount (hd (records f))
         = flat_sum (scope_rows (df \<lparr>df = sga_ledger\<rparr>) None None 0) (s_account_code (hd (records f)))"
    by blast
  with f d s r show ?thesis by simp
qed

text \<open>
  C9. \<open>get_cost_breakdown_by_dept\<close> returns a table whose records are, in ascending
  order, one for each department code present in the report-type-1 rows of the period;
  a department with report-type-0 rows but no report-type-1 row has no record, whatever
  its manufacturing-cost line says.
\<close>

theorem get_cost_breakdown_by_dept_only_cost_depts:
  "\<exists>f. get_cost_breakdown_by_dept self ym = Some f
     \<and> map c_dept_code (records f)
         = sorted_list_of_set (dept_code ` set (scope_rows (df self) None ym 1))
     \<and> (\<forall>c. c \<in> dept_code ` set (scope_rows (df self) None ym 0)
            \<and> c \<notin> dept_code ` set (scope_rows (df self) None ym 1)
          \<longrightarrow> c \<notin> c_dept_code ` set (records f))"
proof -
  define c where "c = scope_rows (df self) None ym 1"
  define m where "m = scope_rows (df self) None ym 0"
  define f where "f = \<lparr>columns = (if dept_code ` set c = {} then [] else cost_keys),
      records = map (cost_item c m) (sorted_list_of_set (dept_code ` set c))\<rparr>"
  have res: "get_cost_breakdown_by_dept self ym = Some f"
    by (simp add: get_cost_breakdown_by_dept_eq Let_def f_def c_def m_def)
  have codes: "map c_dept_code (records f) = sorted_list_of_set (dept_code ` set c)"
    by (simp add: f_def comp_def cost_item_def)
  have "set (map c_dept_code (records f)) = dept_code ` set c"
    by (simp only: codes) simp
  then have "c_dept_code ` set (records f) = dept_code ` set c" by simp
  with res codes show ?thesis unfolding c_def m_def by blast
qed

theorem get_cost_breakdown_by_dept_only_cost_depts_witness:
  "(220 \<in> dept_code ` set (scope_rows (df \<lparr>df = cost_ledger\<rparr>) None None 0)
    \<and> 220 \<notin> dept_code ` set (scope_rows (df \<lparr>df = cost_ledger\<rparr>) None None 1))
   \<and> (\<exists>f. get_cost_breakdown_by_dept \<lparr>df = cost_ledger\<rparr> None = Some f
         \<and> map c_dept_code (records f) = [210]
         \<and> 220 \<notin> c_dept_code ` set (records f))"
proof -
  have h: "220 \<in> dept_code ` set (scope_rows (df \<lparr>df = cost_ledger\<rparr>) None None 0)
    \<and> 220 \<notin> dept_code ` set (scope_rows (df \<lparr>df = cost_ledger\<rparr>) None None 1)"
    by (simp add: scope_rows_def cost_ledger_def mk_row_def)
  from get_cost_breakdown_by_dept_only_cost_depts [of "\<lparr>df = cost_ledger\<rparr>" None]
  obtain f where f: "get_cost_breakdown_by_dept \<lparr>df = cost_ledger\<rparr> None = Some f"
    and a: "\<forall>c. c \<in> dept_code ` set (scope_rows (df \<lparr>df = cost_ledger\<rparr>) None None 0)
            \<and> c \<notin> dept_code ` set (scope_rows (df \<lparr>df = cost_ledger\<rparr>) None None 1)
          \<longrightarrow> c \<notin> c_dept_code ` set (records f)"
    by blast
  from a h have n: "220 \<notin> c_dept_code ` set (records f)" by blast
  from f have m: "map c_dept_code (records f) = [210]"
    by (auto simp: cost_ledger_result)
  from f m n have "\<exists>f. get_cost_breakdown_by_dept \<lparr>df = cost_ledger\<rparr> None = Some f
         \<and> map c_dept_code (records f) = [210]
         \<and> 220 \<notin> c_dept_code ` set (records f)"
    by (intro exI [of _ f] conjI)
  with h show ?thesis by (rule conjI)
qed

section \<open>Degradation and purity of the queries\<close>






section \<open>Loading\<close>

text \<open>
  C5. The period of a file name is read at the first position, from the left, where the
  pattern (four digits, underscore, two digits, underscore) stands, as year, slash, month;
  it is null when the pattern stands nowhere. \<open>load_file\<close> on a file that parses
  returns one row per parsed row, each tagged with the file name and with one and the same
  period: the period of the file name if there is one, else the first non-null cell of
  the start-period column if the file has that column, else null.
\<close>

theorem load_file_period:
  "extract_year_month_from_filename name
     = map_option (period_at name) (find (pattern_at name) [0..<length name])
   \<and> (\<exists>rows. load_file name (Some csv) = Some rows
        \<and> length rows = length (raw_rows csv)
        \<and> (\<forall>r \<in> set rows.
              source_file r = name
              \<and> year_month r =
                  (case extract_year_month_from_filename name of
                     Some p \<Rightarrow> Some p
                   | None \<Rightarrow> if has_start_period csv
                             then first_non_null (map raw_start_period (raw_rows csv))
                             else None)))"
  by (auto simp: extract_find load_file_def file_period_eq tag_row_def)

theorem load_file_period_witness:
  "extract_year_month_from_filename ''prefix_2025_08_suffix.csv'' = Some ''2025/08''
   \<and> (\<exists>rows. load_file ''prefix_2025_08_suffix.csv'' (Some ex_csv) = Some rows
         \<and> length rows = 2
         \<and> source_file (hd rows) = ''prefix_2025_08_suffix.csv''
         \<and> year_month (hd rows) = Some ''2025/08'')
   \<and> (\<exists>rows. load_file ''invalid_filename.csv'' (Some ex_csv) = Some rows
         \<and> length rows = 2
         \<and> year_month (hd rows) = Some ''2025/07'')"
proof -
  have n: "length (raw_rows ex_csv) = 2" by (simp add: ex_csv_def)
  have fnn: "first_non_null (map raw_start_period (raw_rows ex_csv)) = Some ''2025/07''"
    by (simp add: first_non_null_def ex_csv_def ex_raw_def)
  have hs: "has_start_period ex_csv" by (simp add: ex_csv_def)
  from load_file_period [of "''prefix_2025_08_suffix.csv''" ex_csv]
  obtain rows where r: "load_file ''prefix_2025_08_suffix.csv'' (Some ex_csv) = Some rows"
    and l: "length rows = length (raw_rows ex_csv)"
    and a: "\<forall>r \<in> set rows. source_file r = ''prefix_2025_08_suffix.csv''
              \<and> year_month r =
                  (case extract_year_month_from_filename ''prefix_2025_08_suffix.csv'' of
                     Some p \<Rightarrow> Some p
                   | None \<Rightarrow> if has_start_period ex_csv
                             then first_non_null (map raw_start_period (raw_rows ex_csv))
                             else None)"
    by blast
  from l n have "hd rows \<in> set rows" by (cases rows) simp_all
  with a have "source_file (hd rows) = ''prefix_2025_08_suffix.csv''
      \<and> year_month (hd rows) = Some ''2025/08''"
    by (simp add: ex_extract)
  with r l n have 1: "\<exists>rows. load_file ''prefix_2025_08_suffix.csv'' (Some ex_csv) = Some rows
         \<and> length rows = 2
         \<and> source_file (hd rows) = ''prefix_2025_08_suffix.csv''
         \<and> year_month (hd rows) = Some ''2025/08''"
    by simp
  from load_file_period [of "''invalid_filename.csv''" ex_csv]
  obtain rows' where r': "load_file ''invalid_filename.csv'' (Some ex_csv) = Some rows'"
    and l': "length rows' = length (raw_rows ex_csv)"
    and a': "\<forall>r \<in> set rows'. source_file r = ''invalid_filename.csv''
              \<and> year_month r =
                  (case extract_year_month_from_filename ''invalid_filename.csv'' of
                     Some p \<Rightarrow> Some p
                   | None \<Rightarrow> if has_start_period ex_csv
                             then first_non_null (map raw_start_period (raw_rows ex_csv))
                             else None)"
    by blast
  from l' n have "hd rows' \<in> set rows'" by (cases rows') simp_all
  with a' have "year_month (hd rows') = Some ''2025/07''"
    by (simp add: ex_extract hs fnn)
  with r' l' n have 2: "\<exists>rows. load_file ''invalid_filename.csv'' (Some ex_csv) = Some rows
         \<and> length rows = 2 \<and> year_month (hd rows) = Some ''2025/07''"
    by simp
  from ex_extract(1) 1 2 show ?thesis by (intro conjI)
qed

text \<open>
  C7. \<open>get_periods\<close> returns the non-null period values of the Ledger in ascending
  lexicographic order, each once: the result is the sorted list of the set of those
  values, so it does not depend on the order of the rows (the order in which files were
  loaded). \<open>get_latest_period\<close> returns the last element of that list, or null when
  the list is empty.
\<close>

theorem get_periods_sorted_distinct:
  "sorted (fst (get_periods fs self))
   \<and> distinct (fst (get_periods fs self))
   \<and> set (fst (get_periods fs self))
       = {p. Some p \<in> year_month ` set (fst (loader_df fs self))}
   \<and> fst (get_periods fs self)
       = sorted_list_of_set {p. Some p \<in> year_month ` set (fst (loader_df fs self))}
   \<and> fst (get_latest_period fs self) =
       (if fst (get_periods fs self) = [] then None
        else Some (last (fst (get_periods fs self))))"
  using finite_periods [of "fst (loader_df fs self)"]
  by (simp add: get_periods_eq get_latest_period_eq)

theorem get_periods_sorted_distinct_witness:
  "fst (get_periods ex_fs \<lparr>priv_df = Some ex_period_ledger, priv_loaded_files = []\<rparr>)
     = [''2025/07'', ''2025/08'']
   \<and> sorted (fst (get_periods ex_fs \<lparr>priv_df = Some ex_period_ledger, priv_loaded_files = []\<rparr>))
   \<and> fst (get_latest_period ex_fs \<lparr>priv_df = Some ex_period_ledger, priv_loaded_files = []\<rparr>)
       = Some ''2025/08''"
  using get_periods_sorted_distinct
    [of ex_fs "\<lparr>priv_df = Some ex_period_ledger, priv_loaded_files = []\<rparr>"]
  by (simp add: ex_periods)

text \<open>
  C10. When the data folder is missing or holds no CSV file, \<open>load_all\<close> returns and
  caches the empty Ledger and leaves the list of loaded files as it was, while
  \<open>reload\<close> in the same situation leaves the list empty. So after a successful load
  of one file and a \<open>load_all\<close> on the emptied folder, the list still names that file
  although the Ledger is empty.
\<close>

theorem load_all_keeps_loaded_files:
  "(\<not> folder_exists fs \<or> glob_csv fs = [] \<longrightarrow>
      fst (load_all fs self) = []
      \<and> priv_df (fst (snd (load_all fs self))) = Some []
      \<and> loaded_files (fst (snd (load_all fs self))) = loaded_files self
      \<and> fst (reload fs self) = []
      \<and> loaded_files (fst (snd (reload fs self))) = [])
   \<and> loaded_files (fst (snd (load_all ex_fs_emptied (fst (snd (load_all ex_fs ex_loader))))))
        = [''2025_07_pl.csv'']
   \<and> fst (load_all ex_fs_emptied (fst (snd (load_all ex_fs ex_loader)))) = []"
proof (intro conjI impI)
  assume a: "\<not> folder_exists fs \<or> glob_csv fs = []"
  show "fst (load_all fs self) = []"
    and "priv_df (fst (snd (load_all fs self))) = Some []"
    and "loaded_files (fst (snd (load_all fs self))) = loaded_files self"
    and "fst (reload fs self) = []"
    and "loaded_files (fst (snd (reload fs self))) = []"
    by (simp_all add: load_all_nothing_to_load [OF a] reload_def loaded_files_def)
next
  have e: "\<not> folder_exists ex_fs_emptied \<or> glob_csv ex_fs_emptied = []"
    by (simp add: ex_fs_emptied_def glob_csv_def)
  show "loaded_files (fst (snd (load_all ex_fs_emptied (fst (snd (load_all ex_fs ex_loader))))))
        = [''2025_07_pl.csv'']"
    using ex_first_load by (simp add: load_all_nothing_to_load [OF e] loaded_files_def)
  show "fst (load_all ex_fs_emptied (fst (snd (load_all ex_fs ex_loader)))) = []"
    by (simp add: load_all_nothing_to_load [OF e])
qed

theorem load_all_keeps_loaded_files_witness:
  "folder_exists ex_fs_emptied \<and> glob_csv ex_fs_emptied = []
   \<and> loaded_files \<lparr>priv_df = Some example_ledger, priv_loaded_files = [''2025_07_pl.csv'']\<rparr>
       = [''2025_07_pl.csv'']
   \<and> fst (load_all ex_fs_emptied
            \<lparr>priv_df = Some example_ledger, priv_loaded_files = [''2025_07_pl.csv'']\<rparr>) = []
   \<and> loaded_files (fst (snd (load_all ex_fs_emptied
            \<lparr>priv_df = Some example_ledger, priv_loaded_files = [''2025_07_pl.csv'']\<rparr>)))
       = [''2025_07_pl.csv'']
   \<and> loaded_files (fst (snd (reload ex_fs_emptied
            \<lparr>priv_df = Some example_ledger, priv_loaded_files = [''2025_07_pl.csv'']\<rparr>)))
       = []"
proof -
  have e: "\<not> folder_exists ex_fs_emptied \<or> glob_csv ex_fs_emptied = []"
    by (simp add: ex_fs_emptied_def glob_csv_def)
  have g: "folder_exists ex_fs_emptied \<and> glob_csv ex_fs_emptied = []"
    by (simp add: ex_fs_emptied_def ex_fs_def glob_csv_def)
  from load_all_keeps_loaded_files
    [of ex_fs_emptied "\<lparr>priv_df = Some example_ledger, priv_loaded_files = [''2025_07_pl.csv'']\<rparr>"]
    e g
  show ?thesis by (simp add: loaded_files_def)
qed

end
